theory Spec2Isabelle
  imports Main "HOL-Library.AList"
begin

text \<open>
  A model of the object layer of the Blackfynn Python client (\<^verbatim>\<open>blackfynn/models.py\<close>)
  and of the path-tree helpers of its command line (\<^verbatim>\<open>blackfynn/cli/cli_utils.py\<close>):
  type resolution, field reconciliation, construction of entities from wire records,
  the Property class, the collection operations add, remove and items, and the merge of
  path trees. Each function of the source is a function of the same name here that
  returns its result or the error it raises; what a method changes on its receiver is
  returned with the result. The definitions come first, the theorems after them.
\<close>

section \<open>Python values, errors and strings\<close>

text \<open>
  A wire record is a decoded JSON document: a Python value built from
  \<^verbatim>\<open>None\<close>, booleans, integers, strings, lists and dictionaries with string keys
  (floating-point numbers are left out). A dictionary is kept as an association list;
  the list order is the order in which Python iterates over the dictionary, and
  \<open>map_of\<close> is the lookup.
\<close>

datatype pyval =
    PyNone
  | PyBool bool
  | PyInt int
  | PyStr string
  | PyList "pyval list"
  | PyDict "(string \<times> pyval) list"

text \<open>
  Every \<^verbatim>\<open>raise\<close> of the modelled code and every failure of a Python primitive the code
  relies on is a value of this type. The code raises plain \<^verbatim>\<open>Exception\<close> objects that
  differ in their message only; each message has its own constructor here:
  \<open>NotCreated\<close> for \<^verbatim>\<open>'Object must be created on the platform before method is called.'\<close>,
  \<open>NotInCollection\<close> for \<^verbatim>\<open>'Cannot remove item, not in collection:...'\<close>,
  \<open>InvalidParent\<close> for \<^verbatim>\<open>'Invalid parent ...'\<close>, and \<open>Conflict p\<close> for
  \<^verbatim>\<open>'Conflict at p'\<close> with the dotted key path \<open>p\<close>. \<open>RemoteError\<close> is a failure of the
  remote store.
\<close>

datatype error =
    AttributeError
  | TypeError
  | KeyError
  | RecursionError
  | NotCreated
  | NotInCollection
  | InvalidParent
  | Conflict string
  | RemoteError

text \<open>
  \<^verbatim>\<open>str.lower()\<close> on ASCII text: the letters A to Z are mapped to a to z, every other
  character is kept.
\<close>

definition upper_chars :: string where
  "upper_chars = ''ABCDEFGHIJKLMNOPQRSTUVWXYZ''"

definition lower_chars :: string where
  "lower_chars = ''abcdefghijklmnopqrstuvwxyz''"

definition digit_chars :: string where
  "digit_chars = ''0123456789''"

definition lower_char :: "char \<Rightarrow> char" where
  "lower_char c = (case map_of (zip upper_chars lower_chars) c of Some l \<Rightarrow> l | None \<Rightarrow> c)"

definition lower :: "string \<Rightarrow> string" where
  "lower s = map lower_char s"

section \<open>Type resolution\<close>

text \<open>
  The classes of the data-node hierarchy, with \<^verbatim>\<open>object\<close> as its root (the channel,
  annotation, schema, user, organization and ledger classes are left out).
  \<^verbatim>\<open>get_package_class\<close> returns one of Dataset, Collection, TimeSeries, Tabular and
  DataPackage.
\<close>

datatype pyclass =
    Object
  | BaseNode
  | BaseDataNode
  | BaseCollection
  | DataPackage
  | File
  | TimeSeries
  | Tabular
  | Dataset
  | Collection






section \<open>The Property class\<close>

text \<open>
  \<^verbatim>\<open>
  class Property(object):
      _data_types = ['string', 'integer', 'double', 'date', 'user', 'boolean']
      def __init__(self, key, value, fixed=False, hidden=False, category="Blackfynn",
                   data_type=None):
          self.key = key
          self.fixed = fixed
          self.hidden = hidden
          self.category = category
          if data_type is None or (data_type.lower() not in self._data_types):
              dt,v = get_data_type(value)
              self.data_type = dt
              self.value = v
          else:
              self.data_type = data_type
              self.value = value_as_type(value, data_type.lower())
      def as_dict(self):
          return {"key": self.key, "value": str(self.value), "dataType": self.data_type,
                  "fixed": self.fixed, "hidden": self.hidden, "category": self.category}
      @classmethod
      def from_dict(cls, data, category='Blackfynn'):
          return cls(key=data['key'], value=data['value'], category=category,
                     fixed=data['fixed'], hidden=data['hidden'], data_type=data['dataType'])
  \<close>
  \<^verbatim>\<open>get_data_type\<close> and \<^verbatim>\<open>value_as_type\<close> are imported from \<^verbatim>\<open>blackfynn.utils\<close>, which is
  not part of the object model; they and Python's \<^verbatim>\<open>str\<close> on a property value are
  parameters here, each returning its result or the error it raises.
\<close>

record converters =
  get_data_type :: "pyval \<Rightarrow> error + string \<times> pyval"
  value_as_type :: "pyval \<Rightarrow> string \<Rightarrow> error + pyval"
  str_value :: "pyval \<Rightarrow> error + string"

record property =
  prop_key :: pyval
  prop_value :: pyval
  prop_data_type :: string
  prop_fixed :: pyval
  prop_hidden :: pyval
  prop_category :: pyval

definition data_types :: "string list" where
  "data_types = [''string'', ''integer'', ''double'', ''date'', ''user'', ''boolean'']"

definition infer_property ::
  "converters \<Rightarrow> pyval \<Rightarrow> pyval \<Rightarrow> pyval \<Rightarrow> pyval \<Rightarrow> pyval \<Rightarrow> error + property"
where
  "infer_property cv k v fixed hidden category =
     (case get_data_type cv v of
        Inl e \<Rightarrow> Inl e
      | Inr (dt, v') \<Rightarrow>
          Inr \<lparr>prop_key = k, prop_value = v', prop_data_type = dt, prop_fixed = fixed,
               prop_hidden = hidden, prop_category = category\<rparr>)"

definition Property_init ::
  "converters \<Rightarrow> pyval \<Rightarrow> pyval \<Rightarrow> pyval \<Rightarrow> pyval \<Rightarrow> pyval \<Rightarrow> pyval \<Rightarrow> error + property"
where
  "Property_init cv k v fixed hidden category data_type =
     (case data_type of
        PyNone \<Rightarrow> infer_property cv k v fixed hidden category
      | PyStr dt \<Rightarrow>
          if lower dt \<notin> set data_types then infer_property cv k v fixed hidden category
          else
            (case value_as_type cv v (lower dt) of
               Inl e \<Rightarrow> Inl e
             | Inr v' \<Rightarrow>
                 Inr \<lparr>prop_key = k, prop_value = v', prop_data_type = dt, prop_fixed = fixed,
                      prop_hidden = hidden, prop_category = category\<rparr>)
      | _ \<Rightarrow> Inl AttributeError)"

definition Property_as_dict :: "converters \<Rightarrow> property \<Rightarrow> error + pyval" where
  "Property_as_dict cv p =
     (case str_value cv (prop_value p) of
        Inl e \<Rightarrow> Inl e
      | Inr s \<Rightarrow>
          Inr (PyDict
            [(''key'', prop_key p),
             (''value'', PyStr s),
             (''dataType'', PyStr (prop_data_type p)),
             (''fixed'', prop_fixed p),
             (''hidden'', prop_hidden p),
             (''category'', prop_category p)]))"

text \<open>
  Subscription \<^verbatim>\<open>d[k]\<close> with a string key: a missing key of a dictionary raises
  \<^verbatim>\<open>KeyError\<close>, and a value that is not a dictionary cannot be subscripted by a string.
\<close>

definition item_of :: "pyval \<Rightarrow> string \<Rightarrow> error + pyval" where
  "item_of d k =
     (case d of
        PyDict kvs \<Rightarrow> (case map_of kvs k of Some v \<Rightarrow> Inr v | None \<Rightarrow> Inl KeyError)
      | _ \<Rightarrow> Inl TypeError)"

definition Property_from_dict :: "converters \<Rightarrow> pyval \<Rightarrow> pyval \<Rightarrow> error + property" where
  "Property_from_dict cv data category =
     (case item_of data ''key'' of Inl e \<Rightarrow> Inl e | Inr k \<Rightarrow>
      case item_of data ''value'' of Inl e \<Rightarrow> Inl e | Inr v \<Rightarrow>
      case item_of data ''fixed'' of Inl e \<Rightarrow> Inl e | Inr fixed \<Rightarrow>
      case item_of data ''hidden'' of Inl e \<Rightarrow> Inl e | Inr hidden \<Rightarrow>
      case item_of data ''dataType'' of Inl e \<Rightarrow> Inl e | Inr data_type \<Rightarrow>
        Property_init cv k v fixed hidden category data_type)"

section \<open>Field reconciliation\<close>

text \<open>
  \<^verbatim>\<open>
  def _get_all_class_args(cls):
      if cls == object:
          return set()
      class_args = set()
      for base in cls.__bases__:
          class_args.update(_get_all_class_args(base))
      class_args.update(cls.__init__.__func__.func_code.co_varnames)
      return class_args
  \<close>
  \<open>bases\<close> is the \<^verbatim>\<open>__bases__\<close> of each class and \<open>co_varnames\<close> the variable names of
  its \<^verbatim>\<open>__init__\<close>: the parameters in order, \<^verbatim>\<open>self\<close> and the \<^verbatim>\<open>**kwargs\<close> name included,
  then the local variables (the loop variable \<^verbatim>\<open>k\<close> of \<^verbatim>\<open>Dataset.__init__\<close>).
  The set of names is kept as a list and only ever tested for membership.
\<close>

fun bases :: "pyclass \<Rightarrow> pyclass list" where
  "bases Object = []"
| "bases BaseNode = [Object]"
| "bases BaseDataNode = [BaseNode]"
| "bases BaseCollection = [BaseDataNode]"
| "bases DataPackage = [BaseDataNode]"
| "bases File = [BaseDataNode]"
| "bases TimeSeries = [DataPackage]"
| "bases Tabular = [DataPackage]"
| "bases Dataset = [BaseCollection]"
| "bases Collection = [BaseCollection]"

fun co_varnames :: "pyclass \<Rightarrow> string list" where
  "co_varnames Object = []"
| "co_varnames BaseNode = [''self'', ''id'']"
| "co_varnames BaseDataNode =
     [''self'', ''name'', ''type'', ''parent'', ''owner_id'', ''dataset_id'', ''id'',
      ''provenance_id'', ''kwargs'']"
| "co_varnames BaseCollection = [''self'', ''name'', ''package_type'', ''kwargs'']"
| "co_varnames DataPackage = [''self'', ''name'', ''package_type'', ''kwargs'']"
| "co_varnames File =
     [''self'', ''name'', ''s3_key'', ''s3_bucket'', ''file_type'', ''size'', ''pkg_id'',
      ''kwargs'']"
| "co_varnames TimeSeries = [''self'', ''name'', ''kwargs'']"
| "co_varnames Tabular = [''self'', ''name'', ''kwargs'']"
| "co_varnames Dataset = [''self'', ''name'', ''description'', ''kwargs'', ''k'']"
| "co_varnames Collection = [''self'', ''name'', ''kwargs'']"

fun depth :: "pyclass \<Rightarrow> nat" where
  "depth Object = 0"
| "depth BaseNode = 1"
| "depth BaseDataNode = 2"
| "depth BaseCollection = 3"
| "depth DataPackage = 3"
| "depth File = 3"
| "depth TimeSeries = 4"
| "depth Tabular = 4"
| "depth Dataset = 4"
| "depth Collection = 4"

function get_all_class_args :: "pyclass \<Rightarrow> string list" where
  "get_all_class_args c =
     (if c = Object then []
      else concat (map get_all_class_args (bases c)) @ co_varnames c)"
  by pat_completeness auto
termination
proof (relation "measure depth")
  show "wf (measure depth)" by simp
next
  fix c b
  assume "c \<noteq> Object" and "b \<in> set (bases c)"
  then show "(b, c) \<in> measure depth" by (cases c) auto
qed

declare get_all_class_args.simps [simp del]

text \<open>
  The three transliterations of a wire key, from \<^verbatim>\<open>BaseNode.from_dict\<close>:
  \<^verbatim>\<open>
  k_lower = k.lower()
  k_camel = re.sub(r'[A-Z]', lambda x: '_'+x.group(0).lower(), k)
  k_camel_num = re.sub(r'[0-9]', lambda x: x.group(0)+'_', k)
  \<close>
  and the choice of the local identifier, first match first:
  \<^verbatim>\<open>
  if k_lower in class_args:       key = k_lower
  elif k_camel in class_args:     key = k_camel
  elif k_camel_num in class_args: key = k_camel_num
  else:                           key = k
  \<close>
\<close>

definition k_camel :: "string \<Rightarrow> string" where
  "k_camel k = concat (map (\<lambda>c. if c \<in> set upper_chars then [CHR ''_'', lower_char c] else [c]) k)"

definition k_camel_num :: "string \<Rightarrow> string" where
  "k_camel_num k = concat (map (\<lambda>c. if c \<in> set digit_chars then [c, CHR ''_''] else [c]) k)"

definition reconcile :: "string list \<Rightarrow> string \<Rightarrow> string" where
  "reconcile class_args k =
     (if lower k \<in> set class_args then lower k
      else if k_camel k \<in> set class_args then k_camel k
      else if k_camel_num k \<in> set class_args then k_camel_num k
      else k)"

section \<open>Objects and their construction from wire records\<close>

text \<open>
  An instance of one of the classes. \<open>ref\<close> is the identity of the Python object (what
  \<^verbatim>\<open>is\<close> compares), \<open>cls\<close> its class, \<open>node_id\<close> the attribute \<^verbatim>\<open>id\<close> that
  \<^verbatim>\<open>BaseNode.__init__\<close> sets on every instance (\<^verbatim>\<open>None\<close> until the entity is created
  remotely), \<open>attrs\<close> the other entries of the instance dictionary \<^verbatim>\<open>__dict__\<close>, and
  \<open>items_cache\<close> the attribute \<^verbatim>\<open>_items\<close> of a collection: \<open>None\<close> is the unloaded
  sentinel.
\<close>

datatype node =
  Node (ref: nat) (cls: pyclass) (node_id: pyval) (attrs: "(string \<times> pyval) list")
    (items_cache: "node list option")

definition set_id :: "pyval \<Rightarrow> node \<Rightarrow> node" where
  "set_id v n = Node (ref n) (cls n) v (attrs n) (items_cache n)"

definition set_attr :: "string \<Rightarrow> pyval \<Rightarrow> node \<Rightarrow> node" where
  "set_attr k v n = Node (ref n) (cls n) (node_id n) (AList.update k v (attrs n)) (items_cache n)"

definition del_attr :: "string \<Rightarrow> node \<Rightarrow> node" where
  "del_attr k n = Node (ref n) (cls n) (node_id n) (AList.delete k (attrs n)) (items_cache n)"

definition set_items :: "node list option \<Rightarrow> node \<Rightarrow> node" where
  "set_items xs n = Node (ref n) (cls n) (node_id n) (attrs n) xs"

text \<open>Assignments \<^verbatim>\<open>self.k = v\<close>, in the order given.\<close>

definition set_attrs :: "(string \<times> pyval) list \<Rightarrow> node \<Rightarrow> node" where
  "set_attrs kvs n = fold (\<lambda>kv. set_attr (fst kv) (snd kv)) kvs n"

text \<open>The names of the attributes an instance carries.\<close>

definition attr_names :: "node \<Rightarrow> string list" where
  "attr_names n = ''id'' # map fst (attrs n)"

text \<open>
  Keyword arguments are an association list. \<open>kw_get\<close> reads a parameter that has the
  default \<^verbatim>\<open>None\<close> (also \<^verbatim>\<open>kwargs.pop(k, None)\<close>); \<open>kw_rest\<close> is what is left for
  \<^verbatim>\<open>**kwargs\<close> once the named parameters are bound.
\<close>

definition kw_get :: "(string \<times> pyval) list \<Rightarrow> string \<Rightarrow> pyval" where
  "kw_get kw k = (case map_of kw k of Some v \<Rightarrow> v | None \<Rightarrow> PyNone)"

definition kw_has :: "(string \<times> pyval) list \<Rightarrow> string \<Rightarrow> bool" where
  "kw_has kw k = (k \<in> set (map fst kw))"

definition kw_rest :: "string list \<Rightarrow> (string \<times> pyval) list \<Rightarrow> (string \<times> pyval) list" where
  "kw_rest ks kw = filter (\<lambda>kv. fst kv \<notin> set ks) kw"

definition is_str :: "pyval \<Rightarrow> bool" where
  "is_str v = (case v of PyStr _ \<Rightarrow> True | _ \<Rightarrow> False)"

text \<open>Python's truth value of a wire value, for \<^verbatim>\<open>description or ''\<close>.\<close>

definition truthy :: "pyval \<Rightarrow> bool" where
  "truthy v =
     (case v of
        PyNone \<Rightarrow> False
      | PyBool b \<Rightarrow> b
      | PyInt i \<Rightarrow> i \<noteq> 0
      | PyStr s \<Rightarrow> s \<noteq> []
      | PyList xs \<Rightarrow> xs \<noteq> []
      | PyDict kvs \<Rightarrow> kvs \<noteq> [])"

text \<open>
  The constructors, called as \<^verbatim>\<open>cls.__init__(item, **kwargs)\<close>. A keyword the signature
  does not take, a keyword given twice (\<^verbatim>\<open>self\<close>, or \<^verbatim>\<open>type\<close> passed on to a base
  constructor that is also given it by name) and a missing required parameter raise
  \<^verbatim>\<open>TypeError\<close>.
  \<^verbatim>\<open>
  class BaseNode(object):
      def __init__(self, id=None):
          self.id = id
  \<close>
\<close>

definition BaseNode_init :: "node \<Rightarrow> (string \<times> pyval) list \<Rightarrow> error + node" where
  "BaseNode_init self kw =
     (if list_ex (\<lambda>k. k \<noteq> ''id'') (map fst kw) then Inl TypeError
      else Inr (set_id (kw_get kw ''id'') self))"

text \<open>
  \<^verbatim>\<open>
  class BaseDataNode(BaseNode):
      def __init__(self, name, type, parent=None, owner_id=None, dataset_id=None,
                   id=None, provenance_id=None, **kwargs):
          super(BaseDataNode, self).__init__(id=id)
          self.name = name
          self._properties = {}
          if isinstance(parent, basestring) or parent is None:
              self.parent = parent
          elif isinstance(parent, Collection):
              self.parent = parent.id
          else:
              raise Exception("Invalid parent {}".format(parent))
          self.type = type
          self.dataset = dataset_id
          self.owner_id = owner_id
          self.provenance_id = provenance_id
          self.state = kwargs.pop('state', None)
          self.created_at = kwargs.pop('createdAt', None)
          self.updated_at = kwargs.pop('updatedAt', None)
  \<close>
  A keyword value that comes from a wire record is never a \<^verbatim>\<open>Collection\<close> object, so the
  \<^verbatim>\<open>elif\<close> branch does not apply to it. Whatever else \<^verbatim>\<open>**kwargs\<close> holds is not read.
\<close>

definition BaseDataNode_params :: "string list" where
  "BaseDataNode_params =
     [''name'', ''type'', ''parent'', ''owner_id'', ''dataset_id'', ''id'', ''provenance_id'']"

definition BaseDataNode_init :: "node \<Rightarrow> (string \<times> pyval) list \<Rightarrow> error + node" where
  "BaseDataNode_init self kw =
     (if kw_has kw ''self'' then Inl TypeError
      else if \<not> kw_has kw ''name'' \<or> \<not> kw_has kw ''type'' then Inl TypeError
      else
        (case BaseNode_init self [(''id'', kw_get kw ''id'')] of
           Inl e \<Rightarrow> Inl e
         | Inr self1 \<Rightarrow>
             let parent = kw_get kw ''parent'';
                 kwargs = kw_rest BaseDataNode_params kw
             in if \<not> (is_str parent \<or> parent = PyNone) then Inl InvalidParent
                else Inr (set_attrs
                  [(''name'', kw_get kw ''name''),
                   (''_properties'', PyDict []),
                   (''parent'', parent),
                   (''type'', kw_get kw ''type''),
                   (''dataset'', kw_get kw ''dataset_id''),
                   (''owner_id'', kw_get kw ''owner_id''),
                   (''provenance_id'', kw_get kw ''provenance_id''),
                   (''state'', kw_get kwargs ''state''),
                   (''created_at'', kw_get kwargs ''createdAt''),
                   (''updated_at'', kw_get kwargs ''updatedAt'')] self1)))"


text \<open>
  \<^verbatim>\<open>
  class BaseCollection(BaseDataNode):
      def __init__(self, name, package_type, **kwargs):
          self.storage = kwargs.pop('storage', None)
          super(BaseCollection, self).__init__(name, package_type, **kwargs)
          self._items = None
  class DataPackage(BaseDataNode):
      def __init__(self, name, package_type, **kwargs):
          self.storage = kwargs.pop('storage', None)
          super(DataPackage, self).__init__(name=name, type=package_type, **kwargs)
          self.session = None
  \<close>
\<close>

definition BaseCollection_init :: "node \<Rightarrow> (string \<times> pyval) list \<Rightarrow> error + node" where
  "BaseCollection_init self kw =
     (if kw_has kw ''self'' then Inl TypeError
      else if \<not> kw_has kw ''name'' \<or> \<not> kw_has kw ''package_type'' then Inl TypeError
      else
        let kwargs0 = kw_rest [''name'', ''package_type''] kw;
            self1 = set_attr ''storage'' (kw_get kwargs0 ''storage'') self;
            kwargs = kw_rest [''storage''] kwargs0
        in if kw_has kwargs ''name'' \<or> kw_has kwargs ''type'' then Inl TypeError
           else
             (case BaseDataNode_init self1
                     ((''name'', kw_get kw ''name'') # (''type'', kw_get kw ''package_type'') # kwargs) of
                Inl e \<Rightarrow> Inl e
              | Inr self2 \<Rightarrow> Inr (set_items None self2)))"

definition DataPackage_init :: "node \<Rightarrow> (string \<times> pyval) list \<Rightarrow> error + node" where
  "DataPackage_init self kw =
     (if kw_has kw ''self'' then Inl TypeError
      else if \<not> kw_has kw ''name'' \<or> \<not> kw_has kw ''package_type'' then Inl TypeError
      else
        let kwargs0 = kw_rest [''name'', ''package_type''] kw;
            self1 = set_attr ''storage'' (kw_get kwargs0 ''storage'') self;
            kwargs = kw_rest [''storage''] kwargs0
        in if kw_has kwargs ''name'' \<or> kw_has kwargs ''type'' then Inl TypeError
           else
             (case BaseDataNode_init self1
                     ((''name'', kw_get kw ''name'') # (''type'', kw_get kw ''package_type'') # kwargs) of
                Inl e \<Rightarrow> Inl e
              | Inr self2 \<Rightarrow> Inr (set_attr ''session'' PyNone self2)))"

text \<open>
  \<^verbatim>\<open>
  class File(BaseDataNode):
      def __init__(self, name, s3_key, s3_bucket, file_type, size, pkg_id=None, **kwargs):
          super(File, self).__init__(name, type=file_type, **kwargs)
          self.s3_key = s3_key
          self.s3_bucket = s3_bucket
          self.size = size
          self.pkg_id = pkg_id
          self.local_path = None
  \<close>
\<close>

definition File_required :: "string list" where
  "File_required = [''name'', ''s3_key'', ''s3_bucket'', ''file_type'', ''size'']"

definition File_init :: "node \<Rightarrow> (string \<times> pyval) list \<Rightarrow> error + node" where
  "File_init self kw =
     (if kw_has kw ''self'' then Inl TypeError
      else if \<not> list_all (kw_has kw) File_required then Inl TypeError
      else
        let kwargs = kw_rest (File_required @ [''pkg_id'']) kw
        in if kw_has kwargs ''type'' then Inl TypeError
           else
             (case BaseDataNode_init self
                     ((''name'', kw_get kw ''name'') # (''type'', kw_get kw ''file_type'') # kwargs) of
                Inl e \<Rightarrow> Inl e
              | Inr self1 \<Rightarrow>
                  Inr (set_attrs
                    [(''s3_key'', kw_get kw ''s3_key''),
                     (''s3_bucket'', kw_get kw ''s3_bucket''),
                     (''size'', kw_get kw ''size''),
                     (''pkg_id'', kw_get kw ''pkg_id''),
                     (''local_path'', PyNone)] self1)))"

text \<open>
  \<^verbatim>\<open>
  class TimeSeries(DataPackage):
      def __init__(self, name, **kwargs):
          kwargs.pop('package_type', None)
          super(TimeSeries,self).__init__(name=name, package_type="TimeSeries", **kwargs)
  class Tabular(DataPackage):
      def __init__(self, name, **kwargs):
          kwargs.pop('package_type',None)
          super(Tabular,self).__init__(name=name, package_type="Tabular", **kwargs)
          self.schema = None
  class Collection(BaseCollection):
      def __init__(self, name, **kwargs):
          kwargs.pop('package_type', None)
          super(Collection, self).__init__(name, package_type="Collection", **kwargs)
  class Dataset(BaseCollection):
      def __init__(self, name, description=None, **kwargs):
          kwargs.pop('package_type', None)
          super(Dataset, self).__init__(name, "DataSet", **kwargs)
          self.description = description or ''
          for k in ("parent", "type", "set_ready", "set_unavailable", "set_error",
                    "state", "dataset"):
              self.__dict__.pop(k, None)
  \<close>
\<close>

definition TimeSeries_init :: "node \<Rightarrow> (string \<times> pyval) list \<Rightarrow> error + node" where
  "TimeSeries_init self kw =
     (if kw_has kw ''self'' then Inl TypeError
      else if \<not> kw_has kw ''name'' then Inl TypeError
      else DataPackage_init self
             ((''name'', kw_get kw ''name'') # (''package_type'', PyStr ''TimeSeries'')
                # kw_rest [''name'', ''package_type''] kw))"

definition Tabular_init :: "node \<Rightarrow> (string \<times> pyval) list \<Rightarrow> error + node" where
  "Tabular_init self kw =
     (if kw_has kw ''self'' then Inl TypeError
      else if \<not> kw_has kw ''name'' then Inl TypeError
      else
        (case DataPackage_init self
                ((''name'', kw_get kw ''name'') # (''package_type'', PyStr ''Tabular'')
                   # kw_rest [''name'', ''package_type''] kw) of
           Inl e \<Rightarrow> Inl e
         | Inr self1 \<Rightarrow> Inr (set_attr ''schema'' PyNone self1)))"

definition Collection_init :: "node \<Rightarrow> (string \<times> pyval) list \<Rightarrow> error + node" where
  "Collection_init self kw =
     (if kw_has kw ''self'' then Inl TypeError
      else if \<not> kw_has kw ''name'' then Inl TypeError
      else BaseCollection_init self
             ((''name'', kw_get kw ''name'') # (''package_type'', PyStr ''Collection'')
                # kw_rest [''name'', ''package_type''] kw))"

definition Dataset_init :: "node \<Rightarrow> (string \<times> pyval) list \<Rightarrow> error + node" where
  "Dataset_init self kw =
     (if kw_has kw ''self'' then Inl TypeError
      else if \<not> kw_has kw ''name'' then Inl TypeError
      else
        (case BaseCollection_init self
                ((''name'', kw_get kw ''name'') # (''package_type'', PyStr ''DataSet'')
                   # kw_rest [''name'', ''description'', ''package_type''] kw) of
           Inl e \<Rightarrow> Inl e
         | Inr self1 \<Rightarrow>
             let description = kw_get kw ''description'';
                 self2 = set_attr ''description''
                           (if truthy description then description else PyStr []) self1
             in Inr (fold del_attr [''parent'', ''type'', ''state'', ''dataset''] self2)))"

fun py_init :: "pyclass \<Rightarrow> node \<Rightarrow> (string \<times> pyval) list \<Rightarrow> error + node" where
  "py_init Object self kw = (if kw = [] then Inr self else Inl TypeError)"
| "py_init BaseNode self kw = BaseNode_init self kw"
| "py_init BaseDataNode self kw = BaseDataNode_init self kw"
| "py_init BaseCollection self kw = BaseCollection_init self kw"
| "py_init DataPackage self kw = DataPackage_init self kw"
| "py_init File self kw = File_init self kw"
| "py_init TimeSeries self kw = TimeSeries_init self kw"
| "py_init Tabular self kw = Tabular_init self kw"
| "py_init Dataset self kw = Dataset_init self kw"
| "py_init Collection self kw = Collection_init self kw"

text \<open>
  \<^verbatim>\<open>
  @classmethod
  def from_dict(cls, data, api=None, object_key=None):
      if object_key is not None: obj_key = object_key
      else:                      obj_key = cls._object_key
      if obj_key == '' or obj_key is None: content = data
      else:                                content = data[obj_key]
      class_args = _get_all_class_args(cls)
      kwargs = {}
      thing_id = content.pop('id', None)
      for k,v in content.iteritems():
          ...                     # the three transliterations and the choice of key
          kwargs[key] = v
      item = cls.__new__(cls)
      cls.__init__(item, **kwargs)
      if thing_id is not None:
          item.id = thing_id
      if api is not None: ...
      return item
  \<close>
  This is \<^verbatim>\<open>BaseNode.from_dict\<close>, the body every class of the hierarchy runs first (the
  subclasses that override \<^verbatim>\<open>from_dict\<close> start with a \<^verbatim>\<open>super\<close> call to it). It is
  modelled with \<^verbatim>\<open>api=None\<close>; \<^verbatim>\<open>_object_key\<close> is \<^verbatim>\<open>'content'\<close> for every class here.
  \<open>r\<close> is the identity of the new object. \<open>build_kwargs\<close> is the loop: a later wire key
  that reconciles to the same identifier as an earlier one overwrites its value.
\<close>

definition build_kwargs :: "string list \<Rightarrow> (string \<times> pyval) list \<Rightarrow> (string \<times> pyval) list" where
  "build_kwargs class_args content =
     fold (\<lambda>kv kwargs. AList.update (reconcile class_args (fst kv)) (snd kv) kwargs) content []"

definition BaseNode_from_dict :: "nat \<Rightarrow> pyclass \<Rightarrow> pyval \<Rightarrow> string option \<Rightarrow> error + node" where
  "BaseNode_from_dict r c data object_key =
     (let obj_key = (case object_key of Some k \<Rightarrow> k | None \<Rightarrow> ''content'')
      in case (if obj_key = [] then Inr data else item_of data obj_key) of
           Inl e \<Rightarrow> Inl e
         | Inr content \<Rightarrow>
             (case content of
                PyDict kvs \<Rightarrow>
                  let class_args = get_all_class_args c;
                      thing_id = kw_get kvs ''id'';
                      kwargs = build_kwargs class_args (AList.delete ''id'' kvs)
                  in (case py_init c (Node r c PyNone [] None) kwargs of
                        Inl e \<Rightarrow> Inl e
                      | Inr item \<Rightarrow>
                          Inr (if thing_id \<noteq> PyNone then set_id thing_id item else item))
              | PyList _ \<Rightarrow> Inl TypeError
              | _ \<Rightarrow> Inl AttributeError))"

section \<open>Collections: add, remove and the lazy item list\<close>

text \<open>
  The transport layer behind \<^verbatim>\<open>self._api\<close> is not part of the object model. Its
  methods are parameters of the model, each returning its result or the error it
  raises, and every call the object model makes to one of them is appended to a trace.
\<close>

record api =
  core_create :: "node \<Rightarrow> error + node"
  data_delete :: "node list \<Rightarrow> error + unit"
  datasets_get :: "node \<Rightarrow> error + node"
  packages_get :: "node \<Rightarrow> error + node"

datatype call =
    Create node
  | Delete "node list"
  | DatasetsGet node
  | PackagesGet node

text \<open>
  \<^verbatim>\<open>
  def __eq__(self, item):
      if self.exists and item.exists: return self.id == item.id
      else:                           return self is item
  @property
  def exists(self):
      return self.id is not None
  def _check_exists(self):
      if not self.exists:
          raise Exception('Object must be created on the platform before method is called.')
  \<close>
  \<open>py_in\<close> is \<^verbatim>\<open>item in xs\<close> on a list of nodes: some element is the same object as
  \<^verbatim>\<open>item\<close> or compares equal to it.
\<close>

definition exists_remotely :: "node \<Rightarrow> bool" where
  "exists_remotely n = (node_id n \<noteq> PyNone)"

definition node_eq :: "node \<Rightarrow> node \<Rightarrow> bool" where
  "node_eq self item =
     (if exists_remotely self \<and> exists_remotely item then node_id self = node_id item
      else ref self = ref item)"

definition check_exists :: "node \<Rightarrow> error + unit" where
  "check_exists self = (if \<not> exists_remotely self then Inl NotCreated else Inr ())"

definition py_in :: "node \<Rightarrow> node list \<Rightarrow> bool" where
  "py_in item xs = list_ex (\<lambda>x. ref x = ref item \<or> node_eq item x) xs"

text \<open>
  \<^verbatim>\<open>
  def add(self, *items):
      self._check_exists()
      for item in items:
          if self._items is None:
              self._items = []
          if isinstance(self, Dataset):
              item.parent = None
              item.dataset = self.id
          elif hasattr(self, 'dataset'):
              item.parent = self.id
              item.dataset = self.dataset
          # create, if not already created
          new_item = self._api.core.create(item)
          item.__dict__.update(new_item.__dict__)
          # add item
          self._items.append(item)
  \<close>
  \<open>link\<close> is the \<^verbatim>\<open>if\<close>/\<^verbatim>\<open>elif\<close>; \<open>dict_update\<close> is \<^verbatim>\<open>item.__dict__.update\<close>:
  every attribute of the returned object overwrites the item's, \<^verbatim>\<open>_items\<close> among them
  when the returned object is a collection. \<open>add\<close> returns what the call returns or
  raises, the receiver and the items as the call leaves them, and the trace. The items
  are objects distinct from the receiver and from one another.
\<close>

definition link :: "node \<Rightarrow> node \<Rightarrow> node" where
  "link self item =
     (if cls self = Dataset then
        set_attr ''dataset'' (node_id self) (set_attr ''parent'' PyNone item)
      else
        (case map_of (attrs self) ''dataset'' of
           Some d \<Rightarrow> set_attr ''dataset'' d (set_attr ''parent'' (node_id self) item)
         | None \<Rightarrow> item))"

definition is_collection :: "pyclass \<Rightarrow> bool" where
  "is_collection c = (c = BaseCollection \<or> c = Dataset \<or> c = Collection)"

definition dict_update :: "node \<Rightarrow> node \<Rightarrow> node" where
  "dict_update item new_item =
     Node (ref item) (cls item) (node_id new_item)
       (AList.merge (attrs item) (attrs new_item))
       (if is_collection (cls new_item) then items_cache new_item else items_cache item)"

definition init_items :: "node \<Rightarrow> node" where
  "init_items self = (if items_cache self = None then set_items (Some []) self else self)"

definition append_item :: "node \<Rightarrow> node \<Rightarrow> node" where
  "append_item item self =
     set_items (Some ((case items_cache self of Some xs \<Rightarrow> xs | None \<Rightarrow> []) @ [item])) self"

fun add_loop ::
  "api \<Rightarrow> node \<Rightarrow> node list \<Rightarrow> call list \<Rightarrow> (error + unit) \<times> node \<times> node list \<times> call list"
where
  "add_loop a self [] tr = (Inr (), self, [], tr)"
| "add_loop a self (item # rest) tr =
     (let self1 = init_items self;
          item1 = link self1 item;
          tr1 = tr @ [Create item1]
      in case core_create a item1 of
           Inl e \<Rightarrow> (Inl e, self1, item1 # rest, tr1)
         | Inr new_item \<Rightarrow>
             (let item2 = dict_update item1 new_item
              in case add_loop a (append_item item2 self1) rest tr1 of
                   (res, self2, rest2, tr2) \<Rightarrow> (res, self2, item2 # rest2, tr2)))"

definition add ::
  "api \<Rightarrow> node \<Rightarrow> node list \<Rightarrow> call list \<Rightarrow> (error + unit) \<times> node \<times> node list \<times> call list"
where
  "add a self items tr =
     (case check_exists self of
        Inl e \<Rightarrow> (Inl e, self, items, tr)
      | Inr _ \<Rightarrow> add_loop a self items tr)"

text \<open>
  \<^verbatim>\<open>
  def remove(self, *items):
      self._check_exists()
      for item in items:
          if item not in self._items:
              raise Exception('Cannot remove item, not in collection:{}'.format(item))
      self._api.data.delete(*items)
      # force refresh
      self._items = None
  \<close>
  The items are node objects. The membership test on the unloaded sentinel,
  \<^verbatim>\<open>item not in None\<close>, raises \<^verbatim>\<open>TypeError\<close>.
\<close>

fun check_members :: "node \<Rightarrow> node list \<Rightarrow> error + unit" where
  "check_members self [] = Inr ()"
| "check_members self (item # rest) =
     (case items_cache self of
        None \<Rightarrow> Inl TypeError
      | Some xs \<Rightarrow> if \<not> py_in item xs then Inl NotInCollection else check_members self rest)"

definition remove ::
  "api \<Rightarrow> node \<Rightarrow> node list \<Rightarrow> call list \<Rightarrow> (error + unit) \<times> node \<times> call list"
where
  "remove a self items tr =
     (case check_exists self of
        Inl e \<Rightarrow> (Inl e, self, tr)
      | Inr _ \<Rightarrow>
          (case check_members self items of
             Inl e \<Rightarrow> (Inl e, self, tr)
           | Inr _ \<Rightarrow>
               (case data_delete a items of
                  Inl e \<Rightarrow> (Inl e, self, tr @ [Delete items])
                | Inr _ \<Rightarrow> (Inr (), set_items None self, tr @ [Delete items]))))"

text \<open>
  \<^verbatim>\<open>
  @property
  def items(self):
      self._check_exists()
      if self._items is None:
          new_self = self._get_method(self)
          new_items = new_self._items
          self._items = new_items if new_items is not None else []
      return self._items
  \<close>
  \<^verbatim>\<open>_get_method\<close> is \<^verbatim>\<open>self._api.datasets.get\<close> on a Dataset and
  \<^verbatim>\<open>self._api.packages.get\<close> on a Collection; on \<^verbatim>\<open>BaseCollection\<close> itself the property
  returns \<^verbatim>\<open>None\<close>, and calling it raises \<^verbatim>\<open>TypeError\<close>.
\<close>

definition get_method :: "api \<Rightarrow> node \<Rightarrow> call list \<Rightarrow> (error + node) \<times> call list" where
  "get_method a self tr =
     (if cls self = Dataset then (datasets_get a self, tr @ [DatasetsGet self])
      else if cls self = Collection then (packages_get a self, tr @ [PackagesGet self])
      else (Inl TypeError, tr))"

definition items :: "api \<Rightarrow> node \<Rightarrow> call list \<Rightarrow> (error + node list) \<times> node \<times> call list" where
  "items a self tr =
     (case check_exists self of
        Inl e \<Rightarrow> (Inl e, self, tr)
      | Inr _ \<Rightarrow>
          (case items_cache self of
             Some xs \<Rightarrow> (Inr xs, self, tr)
           | None \<Rightarrow>
               (case get_method a self tr of
                  (Inl e, tr1) \<Rightarrow> (Inl e, self, tr1)
                | (Inr new_self, tr1) \<Rightarrow>
                    (let new_items = items_cache new_self;
                         xs = (case new_items of Some ys \<Rightarrow> ys | None \<Rightarrow> [])
                     in (Inr xs, set_items (Some xs) self, tr1)))))"



text \<open>
  Modelled from the spec: the remote verb \<^verbatim>\<open>create(entity) -> entity'\<close> behind
  \<^verbatim>\<open>self._api.core.create\<close>, whose code is not part of the object model. The spec says
  that \<^verbatim>\<open>entity'\<close> carries the assigned id and any server-computed fields, and that the
  verb fails with a \<^verbatim>\<open>RemoteError\<close> if the parent does not exist or validation fails
  server-side. The server is a parameter: what it accepts, the id it assigns and the
  lifecycle state and timestamps it computes. Every other attribute of \<^verbatim>\<open>entity'\<close> is
  the one that was sent.
\<close>

record server =
  accepts :: "node \<Rightarrow> bool"
  assigned_id :: "node \<Rightarrow> string"
  computed_state :: "node \<Rightarrow> pyval"
  computed_created_at :: "node \<Rightarrow> pyval"
  computed_updated_at :: "node \<Rightarrow> pyval"

definition remote_create :: "server \<Rightarrow> node \<Rightarrow> error + node" where
  "remote_create srv entity =
     (if \<not> accepts srv entity then Inl RemoteError
      else Inr (set_attrs
        [(''state'', computed_state srv entity),
         (''created_at'', computed_created_at srv entity),
         (''updated_at'', computed_updated_at srv entity)]
        (set_id (PyStr (assigned_id srv entity)) entity)))"

section \<open>Path trees\<close>

text \<open>
  A path is the list of nodes from the root dataset down to an entity. \<^verbatim>\<open>make_tree\<close>
  turns it into nested dictionaries keyed by id, with the last node itself as the
  innermost value:
  \<^verbatim>\<open>
  def make_tree(path):
      if len(path)==1:
          value = path[0]
      else:
          value = make_tree(path[1:])
      return {path[0].id: value}
  \<close>
  A value of such a dictionary is a node or a dictionary again. On the empty path the
  recursion never ends (\<^verbatim>\<open>path[1:]\<close> is empty again) and Python raises when the
  recursion limit is reached; an id that is a list or a dictionary cannot be a key.
\<close>

datatype tree = Leaf node | Dict "(pyval \<times> tree) list"

fun hashable :: "pyval \<Rightarrow> bool" where
  "hashable (PyList _) = False"
| "hashable (PyDict _) = False"
| "hashable _ = True"

fun make_tree :: "node list \<Rightarrow> error + (pyval \<times> tree) list" where
  "make_tree [] = Inl RecursionError"
| "make_tree [x] = (if hashable (node_id x) then Inr [(node_id x, Leaf x)] else Inl TypeError)"
| "make_tree (x # y # ys) =
     (case make_tree (y # ys) of
        Inl e \<Rightarrow> Inl e
      | Inr v \<Rightarrow> if hashable (node_id x) then Inr [(node_id x, Dict v)] else Inl TypeError)"

text \<open>
  \<^verbatim>\<open>
  def merge(a, b, path=None):
      if path is None: path = []
      for key in b:
          if key in a:
              if isinstance(a[key], dict) and isinstance(b[key], dict):
                  merge(a[key], b[key], path + [str(key)])
              elif a[key] == b[key]:
                  pass # same leaf value
              else:
                  raise Exception('Conflict at %s' % '.'.join(path + [str(key)]))
          else:
              a[key] = b[key]
      return a
  \<close>
  Both arguments are dictionaries; the order of \<open>b\<close> is the order of the loop. Python's
  \<^verbatim>\<open>str\<close> on keys is the parameter \<open>str_of\<close>. The comparison \<^verbatim>\<open>a[key] == b[key]\<close> runs
  \<^verbatim>\<open>BaseNode.__eq__\<close> as soon as one side is a node: two nodes compare as \<open>node_eq\<close>
  says; a node against a dictionary reads \<^verbatim>\<open>item.exists\<close> of the dictionary when the
  node exists remotely, which raises \<^verbatim>\<open>AttributeError\<close>, and is unequal otherwise.
\<close>

fun join_dot :: "string list \<Rightarrow> string" where
  "join_dot [] = []"
| "join_dot [x] = x"
| "join_dot (x # y # ys) = x @ ''.'' @ join_dot (y # ys)"

fun merge ::
  "(pyval \<Rightarrow> string) \<Rightarrow> (pyval \<times> tree) list \<Rightarrow> (pyval \<times> tree) list \<Rightarrow> string list
     \<Rightarrow> error + (pyval \<times> tree) list"
where
  "merge str_of a [] path = Inr a"
| "merge str_of a ((key, bv) # b) path =
     (case map_of a key of
        None \<Rightarrow> merge str_of (a @ [(key, bv)]) b path
      | Some av \<Rightarrow>
          (case (av, bv) of
             (Dict xs, Dict ys) \<Rightarrow>
               (case merge str_of xs ys (path @ [str_of key]) of
                  Inl e \<Rightarrow> Inl e
                | Inr xs' \<Rightarrow> merge str_of (AList.update key (Dict xs') a) b path)
           | (Leaf x, Leaf y) \<Rightarrow>
               if node_eq x y then merge str_of a b path
               else Inl (Conflict (join_dot (path @ [str_of key])))
           | (Leaf x, Dict ys) \<Rightarrow>
               if exists_remotely x then Inl AttributeError
               else Inl (Conflict (join_dot (path @ [str_of key])))
           | (Dict xs, Leaf y) \<Rightarrow>
               if exists_remotely y then Inl AttributeError
               else Inl (Conflict (join_dot (path @ [str_of key])))))"

text \<open>
  \<^verbatim>\<open>reduce(merge, trees)\<close> with \<^verbatim>\<open>trees = [make_tree(path) for path in paths]\<close>, from
  \<^verbatim>\<open>print_path_tree\<close>: the trees are merged into the first one, left to right.
\<close>

fun make_trees :: "node list list \<Rightarrow> error + (pyval \<times> tree) list list" where
  "make_trees [] = Inr []"
| "make_trees (p # ps) =
     (case make_tree p of
        Inl e \<Rightarrow> Inl e
      | Inr t \<Rightarrow> (case make_trees ps of Inl e \<Rightarrow> Inl e | Inr ts \<Rightarrow> Inr (t # ts)))"

fun merge_all ::
  "(pyval \<Rightarrow> string) \<Rightarrow> (pyval \<times> tree) list \<Rightarrow> (pyval \<times> tree) list list
     \<Rightarrow> error + (pyval \<times> tree) list"
where
  "merge_all str_of acc [] = Inr acc"
| "merge_all str_of acc (t # ts) =
     (case merge str_of acc t [] of
        Inl e \<Rightarrow> Inl e
      | Inr acc' \<Rightarrow> merge_all str_of acc' ts)"

definition path_tree ::
  "(pyval \<Rightarrow> string) \<Rightarrow> node list list \<Rightarrow> error + (pyval \<times> tree) list"
where
  "path_tree str_of paths =
     (case make_trees paths of
        Inl e \<Rightarrow> Inl e
      | Inr [] \<Rightarrow> Inl TypeError
      | Inr (t # ts) \<Rightarrow> merge_all str_of t ts)"


section \<open>Example entities\<close>

text \<open>
  A dataset, a collection in it, two packages that exist remotely, two packages built
  locally and not created yet, a server that accepts every entity, and a transport layer
  on top of it. \<open>id_str\<close> is Python's \<^verbatim>\<open>str\<close> on an id: a string or \<^verbatim>\<open>None\<close>.
\<close>

definition example_dataset :: node where
  "example_dataset = Node 1 Dataset (PyStr ''N:dataset:1'') [(''name'', PyStr ''D'')] None"

definition example_collection :: node where
  "example_collection =
     Node 2 Collection (PyStr ''N:collection:2'')
       [(''name'', PyStr ''C1''), (''parent'', PyNone), (''dataset'', PyStr ''N:dataset:1'')] None"

definition local_package :: node where
  "local_package =
     Node 3 DataPackage PyNone
       [(''name'', PyStr ''P1''), (''parent'', PyNone), (''dataset'', PyNone)] None"

definition other_local_package :: node where
  "other_local_package =
     Node 4 DataPackage PyNone
       [(''name'', PyStr ''P2''), (''parent'', PyNone), (''dataset'', PyNone)] None"

definition fetched_package :: node where
  "fetched_package =
     Node 5 DataPackage (PyStr ''N:package:5'')
       [(''name'', PyStr ''P5''), (''parent'', PyStr ''N:collection:2''),
        (''dataset'', PyStr ''N:dataset:1'')] None"

definition other_fetched_package :: node where
  "other_fetched_package =
     Node 6 DataPackage (PyStr ''N:package:6'')
       [(''name'', PyStr ''P6''), (''parent'', PyStr ''N:collection:2''),
        (''dataset'', PyStr ''N:dataset:1'')] None"

definition example_server :: server where
  "example_server =
     \<lparr>accepts = (\<lambda>entity. True),
      assigned_id = (\<lambda>entity. ''N:package:9''),
      computed_state = (\<lambda>entity. PyStr ''READY''),
      computed_created_at = (\<lambda>entity. PyNone),
      computed_updated_at = (\<lambda>entity. PyNone)\<rparr>"

definition example_api :: api where
  "example_api =
     \<lparr>core_create = remote_create example_server,
      data_delete = (\<lambda>items. Inr ()),
      datasets_get = (\<lambda>self. Inr (set_items (Some [example_collection]) self)),
      packages_get = (\<lambda>self. Inr (set_items (Some [fetched_package]) self))\<rparr>"

definition id_str :: "pyval \<Rightarrow> string" where
  "id_str v = (case v of PyStr s \<Rightarrow> s | _ \<Rightarrow> ''None'')"


definition example_converters :: converters where
  "example_converters =
     \<lparr>get_data_type = (\<lambda>v. Inr (''string'', v)),
      value_as_type = (\<lambda>v dt. Inr v),
      str_value = (\<lambda>v. case v of PyStr s \<Rightarrow> Inr s | _ \<Rightarrow> Inl TypeError)\<rparr>"

definition example_property :: property where
  "example_property =
     \<lparr>prop_key = PyStr ''quality'', prop_value = PyStr ''high'', prop_data_type = ''String'',
      prop_fixed = PyBool False, prop_hidden = PyBool False, prop_category = PyStr ''Blackfynn''\<rparr>"

section \<open>Theorems\<close>

subsection \<open>Evaluation lemmas\<close>

lemmas string_evals = lower_def lower_char_def k_camel_def k_camel_num_def
  upper_chars_def lower_chars_def digit_chars_def

lemma class_args_BaseNode: "get_all_class_args BaseNode = [''self'', ''id'']"
  by (simp add: get_all_class_args.simps)


lemma class_args_File:
  "get_all_class_args File =
     [''self'', ''id'', ''self'', ''name'', ''type'', ''parent'', ''owner_id'', ''dataset_id'',
      ''id'', ''provenance_id'', ''kwargs'', ''self'', ''name'', ''s3_key'', ''s3_bucket'',
      ''file_type'', ''size'', ''pkg_id'', ''kwargs'']"
  by (simp add: get_all_class_args.simps)

subsection \<open>Type resolution\<close>




subsection \<open>Field reconciliation\<close>

text \<open>
  The wire key \<^verbatim>\<open>S3Key\<close> does not reconcile to \<^verbatim>\<open>s3_key\<close> on a File.
\<close>

theorem reconcile_S3Key_counterexample:
  "reconcile (get_all_class_args File) ''S3Key'' \<noteq> ''s3_key''"
  by (simp add: class_args_File reconcile_def string_evals)

text \<open>
  C3, as amended. On a File the wire keys \<^verbatim>\<open>s3key\<close> and \<^verbatim>\<open>s3Key\<close> reconcile to the
  local identifier \<^verbatim>\<open>s3_key\<close>, the first by the digit transliteration and the second by
  the camelCase transliteration. The wire key \<^verbatim>\<open>S3Key\<close> matches under none of the three
  rules (its transliterations are \<^verbatim>\<open>s3key\<close>, \<^verbatim>\<open>_s3_key\<close> and \<^verbatim>\<open>S3_Key\<close>) and is
  bound verbatim.
\<close>

theorem reconcile_s3_key:
  "reconcile (get_all_class_args File) ''s3key'' = ''s3_key''
   \<and> reconcile (get_all_class_args File) ''s3Key'' = ''s3_key''
   \<and> lower ''S3Key'' = ''s3key''
   \<and> k_camel ''S3Key'' = ''_s3_key''
   \<and> k_camel_num ''S3Key'' = ''S3_Key''
   \<and> reconcile (get_all_class_args File) ''S3Key'' = ''S3Key''"
  by (simp add: class_args_File reconcile_def string_evals)


subsection \<open>Selectors of updated nodes\<close>

lemma set_items_sel [simp]:
  "ref (set_items xs n) = ref n" "cls (set_items xs n) = cls n"
  "node_id (set_items xs n) = node_id n" "attrs (set_items xs n) = attrs n"
  "items_cache (set_items xs n) = xs"
  by (simp_all add: set_items_def)

lemma set_attr_sel [simp]:
  "ref (set_attr k v n) = ref n" "cls (set_attr k v n) = cls n"
  "node_id (set_attr k v n) = node_id n"
  "map_of (attrs (set_attr k v n)) = (map_of (attrs n))(k \<mapsto> v)"
  "items_cache (set_attr k v n) = items_cache n"
  by (simp_all add: set_attr_def update_conv')

lemma set_id_sel [simp]:
  "ref (set_id v n) = ref n" "cls (set_id v n) = cls n"
  "node_id (set_id v n) = v" "attrs (set_id v n) = attrs n"
  "items_cache (set_id v n) = items_cache n"
  by (simp_all add: set_id_def)

lemma init_items_sel [simp]:
  "cls (init_items n) = cls n" "node_id (init_items n) = node_id n"
  "attrs (init_items n) = attrs n"
  by (simp_all add: init_items_def)

lemma append_item_sel [simp]:
  "cls (append_item x n) = cls n" "node_id (append_item x n) = node_id n"
  "attrs (append_item x n) = attrs n"
  by (simp_all add: append_item_def)

lemma exists_set_items [simp]: "exists_remotely (set_items xs n) = exists_remotely n"
  by (simp add: exists_remotely_def)

subsection \<open>Collections\<close>

lemma link_attrs:
  "map_of (attrs (link self item)) ''parent'' =
     (if cls self = Dataset then Some PyNone
      else case map_of (attrs self) ''dataset'' of
             Some d \<Rightarrow> Some (node_id self) | None \<Rightarrow> map_of (attrs item) ''parent'')"
  "map_of (attrs (link self item)) ''dataset'' =
     (if cls self = Dataset then Some (node_id self)
      else case map_of (attrs self) ''dataset'' of
             Some d \<Rightarrow> Some d | None \<Rightarrow> map_of (attrs item) ''dataset'')"
  by (simp_all add: link_def split: option.splits)

lemma link_cong:
  "cls s' = cls s \<Longrightarrow> node_id s' = node_id s \<Longrightarrow> attrs s' = attrs s
     \<Longrightarrow> link s' item = link s item"
  by (simp add: link_def split: option.splits)

lemma dict_update_attrs:
  "map_of (attrs (dict_update item new_item)) = map_of (attrs item) ++ map_of (attrs new_item)"
  by (simp add: dict_update_def merge_conv')

lemma dict_update_keeps:
  assumes "map_of (attrs new_item) k = map_of (attrs item) k"
  shows "map_of (attrs (dict_update item new_item)) k = map_of (attrs item) k"
  using assms by (simp add: dict_update_attrs map_add_def split: option.splits)

lemma remote_create_attrs:
  assumes "remote_create srv e = Inr n" and "k \<notin> {''state'', ''created_at'', ''updated_at''}"
  shows "map_of (attrs n) k = map_of (attrs e) k"
  using assms by (auto simp: remote_create_def set_attrs_def split: if_splits)

lemma add_loop_Cons_ok:
  assumes "add_loop a self (item # rest) tr = (Inr (), self', its', tr')"
  shows "\<exists>new_item rest2.
           core_create a (link (init_items self) item) = Inr new_item
         \<and> add_loop a
               (append_item (dict_update (link (init_items self) item) new_item) (init_items self))
               rest (tr @ [Create (link (init_items self) item)])
             = (Inr (), self', rest2, tr')
         \<and> its' = dict_update (link (init_items self) item) new_item # rest2"
proof (cases "core_create a (link (init_items self) item)")
  case (Inl e)
  with assms show ?thesis by (simp add: Let_def)
next
  case (Inr new_item)
  obtain res s2 r2 t2 where rec:
    "add_loop a
       (append_item (dict_update (link (init_items self) item) new_item) (init_items self))
       rest (tr @ [Create (link (init_items self) item)]) = (res, s2, r2, t2)"
    by (metis prod_cases4)
  with assms Inr show ?thesis by (simp add: Let_def)
qed

text \<open>
  A successful run of the loop: every item is linked, sent to \<^verbatim>\<open>create\<close> and updated
  from what \<^verbatim>\<open>create\<close> returns, in order; the receiver only gains items.
\<close>

lemma add_loop_ok:
  assumes "add_loop a self its tr = (Inr (), self', its', tr')"
  shows "length its' = length its
    \<and> (\<forall>i < length its. \<exists>new_item.
          core_create a (link self (its ! i)) = Inr new_item
        \<and> its' ! i = dict_update (link self (its ! i)) new_item)
    \<and> tr' = tr @ map (\<lambda>item. Create (link self item)) its
    \<and> items_cache self' =
        (if its = [] then items_cache self
         else Some ((case items_cache self of Some xs \<Rightarrow> xs | None \<Rightarrow> []) @ its'))
    \<and> cls self' = cls self \<and> node_id self' = node_id self \<and> attrs self' = attrs self"
  using assms
proof (induction its arbitrary: self self' its' tr tr')
  case Nil
  then show ?case by auto
next
  case (Cons item rest)
  let ?self1 = "init_items self"
  let ?item1 = "link ?self1 item"
  from add_loop_Cons_ok [OF Cons.prems] obtain new_item rest2 where
    cr: "core_create a ?item1 = Inr new_item"
    and rec: "add_loop a (append_item (dict_update ?item1 new_item) ?self1) rest
                (tr @ [Create ?item1]) = (Inr (), self', rest2, tr')"
    and its': "its' = dict_update ?item1 new_item # rest2"
    by blast
  let ?item2 = "dict_update ?item1 new_item"
  let ?self2 = "append_item ?item2 ?self1"
  note ih = Cons.IH [OF rec]
  have l1: "link ?self1 x = link self x" for x by (rule link_cong) simp_all
  have l2: "link ?self2 x = link self x" for x by (rule link_cong) simp_all
  have len: "length its' = length (item # rest)" using ih its' by simp
  have nth: "\<exists>new_item. core_create a (link self ((item # rest) ! i)) = Inr new_item
        \<and> its' ! i = dict_update (link self ((item # rest) ! i)) new_item"
    if "i < length (item # rest)" for i
  proof (cases i)
    case 0
    then show ?thesis using cr its' l1 by simp
  next
    case (Suc j)
    with that have "j < length rest" by simp
    with ih have "\<exists>new_item. core_create a (link ?self2 (rest ! j)) = Inr new_item
        \<and> rest2 ! j = dict_update (link ?self2 (rest ! j)) new_item" by blast
    then show ?thesis using Suc its' l2 by simp
  qed
  have trace: "tr' = tr @ map (\<lambda>item. Create (link self item)) (item # rest)"
    using ih l1 l2 by simp
  have cache: "items_cache self' =
      Some ((case items_cache self of Some xs \<Rightarrow> xs | None \<Rightarrow> []) @ its')"
  proof (cases "rest = []")
    case True
    with rec have "self' = ?self2" "rest2 = []" by simp_all
    then show ?thesis using its'
      by (simp add: append_item_def init_items_def split: option.splits)
  next
    case False
    with ih have "items_cache self' =
      Some ((case items_cache ?self2 of Some xs \<Rightarrow> xs | None \<Rightarrow> []) @ rest2)"
      by simp
    then show ?thesis using its'
      by (simp add: append_item_def init_items_def split: option.splits)
  qed
  have frame: "cls self' = cls self \<and> node_id self' = node_id self \<and> attrs self' = attrs self"
    using ih by simp
  from len nth trace cache frame show ?case by simp
qed


lemmas example_defs = example_dataset_def example_collection_def local_package_def
  other_local_package_def fetched_package_def other_fetched_package_def example_server_def
  example_api_def

lemmas add_evals = add_def check_exists_def exists_remotely_def init_items_def link_def
  dict_update_def append_item_def remote_create_def set_attrs_def set_attr_def set_id_def
  set_items_def is_collection_def Let_def

lemma example_api_keeps:
  assumes "core_create example_api entity = Inr entity'"
  shows "map_of (attrs entity') ''parent'' = map_of (attrs entity) ''parent''
       \<and> map_of (attrs entity') ''dataset'' = map_of (attrs entity) ''dataset''"
proof -
  from assms have "remote_create example_server entity = Inr entity'"
    by (simp add: example_api_def)
  then show ?thesis by (simp add: remote_create_attrs)
qed

text \<open>
  C1. Linkage after add. The receiver exists remotely, and the entity that the create
  verb returns carries the parent and the dataset that were sent. When add returns,
  every item has parent None and the receiver's id as dataset if the receiver is a
  Dataset, and the receiver's id as parent and the receiver's dataset as dataset if the
  receiver is another collection that has a dataset attribute. The items are any nodes:
  built locally, or built from a children block and passed on by from_dict. They are the
  items the receiver's list gains.
\<close>

theorem add_links_items:
  assumes "exists_remotely self"
    and "\<forall>entity entity'. core_create a entity = Inr entity' \<longrightarrow>
           map_of (attrs entity') ''parent'' = map_of (attrs entity) ''parent''
         \<and> map_of (attrs entity') ''dataset'' = map_of (attrs entity) ''dataset''"
    and "add a self its tr = (Inr (), self', its', tr')"
  shows "length its' = length its
    \<and> (its \<noteq> [] \<longrightarrow>
         items_cache self' =
           Some ((case items_cache self of Some xs \<Rightarrow> xs | None \<Rightarrow> []) @ its'))
    \<and> (\<forall>item \<in> set its'.
         (cls self = Dataset \<longrightarrow>
            map_of (attrs item) ''parent'' = Some PyNone
          \<and> map_of (attrs item) ''dataset'' = Some (node_id self))
       \<and> (cls self \<noteq> Dataset \<longrightarrow>
            (\<forall>d. map_of (attrs self) ''dataset'' = Some d \<longrightarrow>
               map_of (attrs item) ''parent'' = Some (node_id self)
             \<and> map_of (attrs item) ''dataset'' = Some d)))"
proof -
  from assms(1,3) have loop: "add_loop a self its tr = (Inr (), self', its', tr')"
    by (simp add: add_def check_exists_def)
  note l = add_loop_ok [OF loop]
  have linked: "map_of (attrs item) ''parent'' = map_of (attrs (link self x)) ''parent''
      \<and> map_of (attrs item) ''dataset'' = map_of (attrs (link self x)) ''dataset''"
    if "core_create a (link self x) = Inr new_item" "item = dict_update (link self x) new_item"
    for item x new_item
    using that assms(2) by (simp add: dict_update_keeps)
  have each: "\<exists>x. map_of (attrs item) ''parent'' = map_of (attrs (link self x)) ''parent''
      \<and> map_of (attrs item) ''dataset'' = map_of (attrs (link self x)) ''dataset''"
    if "item \<in> set its'" for item
  proof -
    from that obtain i where i: "i < length its'" "its' ! i = item"
      by (auto simp: in_set_conv_nth)
    with l obtain new_item where "core_create a (link self (its ! i)) = Inr new_item"
      "its' ! i = dict_update (link self (its ! i)) new_item" by auto
    with i linked show ?thesis by blast
  qed
  have a: "map_of (attrs item) ''parent'' = Some PyNone
          \<and> map_of (attrs item) ''dataset'' = Some (node_id self)"
    if "item \<in> set its'" "cls self = Dataset" for item
    using each [OF that(1)] that(2) by (auto simp: link_attrs)
  have b: "map_of (attrs item) ''parent'' = Some (node_id self)
             \<and> map_of (attrs item) ''dataset'' = Some d"
    if "item \<in> set its'" "cls self \<noteq> Dataset" "map_of (attrs self) ''dataset'' = Some d"
    for item d
    using each [OF that(1)] that(2,3) by (auto simp: link_attrs)
  have c: "length its' = length its" using l by simp
  have d: "its \<noteq> [] \<longrightarrow>
      items_cache self' = Some ((case items_cache self of Some xs \<Rightarrow> xs | None \<Rightarrow> []) @ its')"
    using l by simp
  from a b c d show ?thesis by simp
qed

theorem add_links_items_witness:
  "fst (add example_api example_collection [local_package] []) = Inr ()
   \<and> map (\<lambda>item. (map_of (attrs item) ''parent'', map_of (attrs item) ''dataset''))
        (fst (snd (snd (add example_api example_collection [local_package] []))))
     = [(Some (PyStr ''N:collection:2''), Some (PyStr ''N:dataset:1''))]
   \<and> fst (add example_api example_dataset [fetched_package] []) = Inr ()
   \<and> map (\<lambda>item. (map_of (attrs item) ''parent'', map_of (attrs item) ''dataset''))
        (fst (snd (snd (add example_api example_dataset [fetched_package] []))))
     = [(Some PyNone, Some (PyStr ''N:dataset:1''))]"
proof -
  let ?rc = "add example_api example_collection [local_package] []"
  let ?rd = "add example_api example_dataset [fetched_package] []"
  have keeps: "\<forall>entity entity'. core_create example_api entity = Inr entity' \<longrightarrow>
           map_of (attrs entity') ''parent'' = map_of (attrs entity) ''parent''
         \<and> map_of (attrs entity') ''dataset'' = map_of (attrs entity) ''dataset''"
    using example_api_keeps by blast
  have okc: "fst ?rc = Inr ()" by (simp add: add_evals example_defs)
  have okd: "fst ?rd = Inr ()" by (simp add: add_evals example_defs)
  have exc: "exists_remotely example_collection"
    by (simp add: exists_remotely_def example_collection_def)
  have exd: "exists_remotely example_dataset"
    by (simp add: exists_remotely_def example_dataset_def)
  have rc: "?rc = (Inr (), fst (snd ?rc), fst (snd (snd ?rc)), snd (snd (snd ?rc)))"
    using okc by (simp add: prod_eq_iff)
  have rd: "?rd = (Inr (), fst (snd ?rd), fst (snd (snd ?rd)), snd (snd (snd ?rd)))"
    using okd by (simp add: prod_eq_iff)
  from add_links_items [OF exc keeps rc] obtain x where
    "fst (snd (snd ?rc)) = [x]"
    "map_of (attrs x) ''parent'' = Some (PyStr ''N:collection:2'')"
    "map_of (attrs x) ''dataset'' = Some (PyStr ''N:dataset:1'')"
    by (cases "fst (snd (snd ?rc))") (auto simp: example_collection_def)
  moreover from add_links_items [OF exd keeps rd] obtain y where
    "fst (snd (snd ?rd)) = [y]"
    "map_of (attrs y) ''parent'' = Some PyNone"
    "map_of (attrs y) ''dataset'' = Some (PyStr ''N:dataset:1'')"
    by (cases "fst (snd (snd ?rd))") (auto simp: example_dataset_def)
  ultimately show ?thesis using okc okd by simp
qed




subsection \<open>remove and the lazy item list\<close>

lemma check_members_loaded:
  "items_cache c = Some xs \<Longrightarrow>
   check_members c its = (if list_all (\<lambda>i. py_in i xs) its then Inr () else Inl NotInCollection)"
  by (induction its) auto

lemma check_members_unloaded:
  "items_cache c = None \<Longrightarrow> its \<noteq> [] \<Longrightarrow> check_members c its = Inl TypeError"
  by (cases its) auto









text \<open>
  C9. remove checks before it deletes. On a receiver that exists remotely and whose item
  list is loaded: if some named item is not in the list, remove raises the not in
  collection error and leaves the receiver and the trace as they are, so no delete was
  issued and the cache is untouched; if every named item is in the list, remove issues
  one delete for all of them, and sets the cache to the unloaded sentinel when the
  delete returns (when the delete raises, its error is passed on and the cache stays).
\<close>

theorem remove_checks_first:
  assumes "exists_remotely c" and "items_cache c = Some xs"
  shows "(\<not> list_all (\<lambda>i. py_in i xs) its \<longrightarrow>
            remove a c its tr = (Inl NotInCollection, c, tr))
       \<and> (list_all (\<lambda>i. py_in i xs) its \<longrightarrow>
            (\<forall>e. data_delete a its = Inl e \<longrightarrow>
                 remove a c its tr = (Inl e, c, tr @ [Delete its]))
          \<and> (data_delete a its = Inr () \<longrightarrow>
                 remove a c its tr = (Inr (), set_items None c, tr @ [Delete its])))"
  using assms by (auto simp: remove_def check_exists_def check_members_loaded)

theorem remove_checks_first_witness:
  "remove example_api (set_items (Some [fetched_package]) example_collection)
      [fetched_package, other_fetched_package] []
     = (Inl NotInCollection, set_items (Some [fetched_package]) example_collection, [])
   \<and> remove example_api (set_items (Some [fetched_package]) example_collection)
      [fetched_package] []
     = (Inr (), set_items None (set_items (Some [fetched_package]) example_collection),
        [Delete [fetched_package]])"
proof -
  let ?c = "set_items (Some [fetched_package]) example_collection"
  have ex: "exists_remotely ?c"
    by (simp add: exists_remotely_def example_collection_def)
  have loaded: "items_cache ?c = Some [fetched_package]" by simp
  have absent: "\<not> list_all (\<lambda>i. py_in i [fetched_package]) [fetched_package, other_fetched_package]"
    by (simp add: py_in_def node_eq_def exists_remotely_def fetched_package_def
        other_fetched_package_def)
  have present: "list_all (\<lambda>i. py_in i [fetched_package]) [fetched_package]"
    by (simp add: py_in_def)
  have del: "data_delete example_api [fetched_package] = Inr ()"
    by (simp add: example_api_def)
  from remove_checks_first [OF ex loaded, of "[fetched_package, other_fetched_package]" example_api "[]"]
    absent
  have a: "remove example_api ?c [fetched_package, other_fetched_package] []
     = (Inl NotInCollection, ?c, [])" by blast
  from remove_checks_first [OF ex loaded, of "[fetched_package]" example_api "[]"] present del
  have b: "remove example_api ?c [fetched_package] []
     = (Inr (), set_items None ?c, [Delete [fetched_package]])" by simp
  from a b show ?thesis by simp
qed

text \<open>
  C10. remove on an unloaded item list. On a receiver that exists remotely and whose
  item list was never loaded, remove of at least one item raises TypeError from the
  membership test on the sentinel, which is not the not in collection error; the
  receiver and the trace are left as they are, so no remote call was made. Once the
  list is loaded the membership tests do not raise TypeError.
\<close>

theorem remove_unloaded_raises:
  assumes "exists_remotely c" and "items_cache c = None" and "its \<noteq> []"
  shows "remove a c its tr = (Inl TypeError, c, tr)
       \<and> TypeError \<noteq> NotInCollection
       \<and> (\<forall>xs. check_members (set_items (Some xs) c) its \<noteq> Inl TypeError)"
  using assms
  by (simp add: remove_def check_exists_def check_members_unloaded check_members_loaded)

theorem remove_unloaded_raises_witness:
  "remove example_api example_collection [fetched_package] []
     = (Inl TypeError, example_collection, [])"
proof -
  have ex: "exists_remotely example_collection"
    by (simp add: exists_remotely_def example_collection_def)
  have un: "items_cache example_collection = None"
    by (simp add: example_collection_def)
  have ne: "[fetched_package] \<noteq> []" by simp
  from remove_unloaded_raises [OF ex un ne] show ?thesis by blast
qed


subsection \<open>Path trees\<close>






subsection \<open>Construction from wire records\<close>








lemmas from_dict_evals = BaseNode_from_dict_def item_of_def build_kwargs_def reconcile_def
  kw_get_def kw_has_def kw_rest_def is_str_def BaseDataNode_init_def BaseNode_init_def
  BaseDataNode_params_def set_attrs_def set_attr_def set_id_def attr_names_def Let_def




subsection \<open>Further properties\<close>

text \<open>
  The round trip of a Property through its wire form, for a data type of the
  enumeration: every component but the value comes back as it was, and the value comes
  back as \<^verbatim>\<open>value_as_type\<close> converts its \<^verbatim>\<open>str\<close>.
\<close>

theorem property_round_trip_value:
  assumes "lower (prop_data_type p) \<in> set data_types"
    and "str_value cv (prop_value p) = Inr s"
  shows "(case Property_as_dict cv p of
            Inl e \<Rightarrow> Inl e
          | Inr d \<Rightarrow> Property_from_dict cv d (prop_category p))
       = (case value_as_type cv (PyStr s) (lower (prop_data_type p)) of
            Inl e \<Rightarrow> Inl e
          | Inr v \<Rightarrow> Inr (p\<lparr>prop_value := v\<rparr>))"
  using assms
  by (simp add: Property_as_dict_def Property_from_dict_def item_of_def Property_init_def
      split: sum.splits)

theorem property_round_trip_value_witness:
  "(case Property_as_dict example_converters example_property of
      Inl e \<Rightarrow> Inl e
    | Inr d \<Rightarrow> Property_from_dict example_converters d (PyStr ''Blackfynn''))
   = Inr example_property"
proof -
  have dt: "lower (prop_data_type example_property) \<in> set data_types"
    by (simp add: example_property_def data_types_def string_evals)
  have sv: "str_value example_converters (prop_value example_property) = Inr ''high''"
    by (simp add: example_converters_def example_property_def)
  have cat: "prop_category example_property = PyStr ''Blackfynn''"
    by (simp add: example_property_def)
  have conv: "value_as_type example_converters (PyStr ''high'')
      (lower (prop_data_type example_property)) = Inr (PyStr ''high'')"
    by (simp add: example_converters_def)
  have same: "example_property\<lparr>prop_value := PyStr ''high''\<rparr> = example_property"
    by (simp add: example_property_def)
  from property_round_trip_value [OF dt sv] show ?thesis
    by (simp only: cat conv same sum.case)
qed

text \<open>
  Merging the tree of a path that ends at a collection with the tree of a path that
  goes on through that collection compares the collection with a dictionary, which
  raises \<^verbatim>\<open>AttributeError\<close> when the collection exists remotely.
\<close>

theorem merge_collection_with_its_item:
  assumes "exists_remotely A" and "hashable (node_id D)" and "hashable (node_id A)"
    and "hashable (node_id X)"
  shows "path_tree str_of [[D, A], [D, A, X]] = Inl AttributeError"
  using assms by (simp add: path_tree_def)

theorem merge_collection_with_its_item_witness:
  "path_tree id_str
     [[example_dataset, example_collection],
      [example_dataset, example_collection, fetched_package]] = Inl AttributeError"
proof -
  have "exists_remotely example_collection" "hashable (node_id example_dataset)"
    "hashable (node_id example_collection)" "hashable (node_id fetched_package)"
    by (simp_all add: exists_remotely_def example_defs)
  from merge_collection_with_its_item [OF this] show ?thesis .
qed

text \<open>
  A File record that spells the storage key \<^verbatim>\<open>S3Key\<close> cannot be constructed, since the
  required parameter \<^verbatim>\<open>s3_key\<close> stays unbound; the same record with \<^verbatim>\<open>s3key\<close> can.
\<close>

theorem File_from_dict_S3Key:
  "BaseNode_from_dict 0 File
     (PyDict [(''content'',
        PyDict [(''id'', PyStr ''N:file:1''), (''name'', PyStr ''scan''),
                (''fileType'', PyStr ''PDF''), (''s3bucket'', PyStr ''b''),
                (''S3Key'', PyStr ''k''), (''size'', PyInt 1)])]) None = Inl TypeError
   \<and> BaseNode_from_dict 0 File
     (PyDict [(''content'',
        PyDict [(''id'', PyStr ''N:file:1''), (''name'', PyStr ''scan''),
                (''fileType'', PyStr ''PDF''), (''s3bucket'', PyStr ''b''),
                (''s3key'', PyStr ''k''), (''size'', PyInt 1)])]) None
     = Inr (Node 0 File (PyStr ''N:file:1'')
         [(''name'', PyStr ''scan''), (''_properties'', PyDict []), (''parent'', PyNone),
          (''type'', PyStr ''PDF''), (''dataset'', PyNone), (''owner_id'', PyNone),
          (''provenance_id'', PyNone), (''state'', PyNone), (''created_at'', PyNone),
          (''updated_at'', PyNone), (''s3_key'', PyStr ''k''), (''s3_bucket'', PyStr ''b''),
          (''size'', PyInt 1), (''pkg_id'', PyNone), (''local_path'', PyNone)] None)"
  by (simp add: class_args_File from_dict_evals File_init_def File_required_def string_evals)

end
